theory Spec2Isabelle
  imports Main "HOL-Library.Word" "HOL-Library.Sublist"
begin

section \<open>The AlumniVerification contract\<close>

text \<open>
  A shallow embedding of \<^verbatim>\<open>src/BlockChain/src/AlumniVerification.sol\<close> (Solidity
  \<^verbatim>\<open>^0.8.20\<close>). Storage is a record that every external function takes and returns;
  a failed \<^verbatim>\<open>require\<close> is a value \<open>Inl (Revert msg, s')\<close> carrying the reason
  string of the source and the storage \<open>s'\<close> as the call had written it when it stopped.
  The execution environment then undoes these writes (\<open>transact\<close> below): storage
  changes only through calls that succeed. Emitted events are returned next to the result.

  Solidity types: \<^verbatim>\<open>address\<close> is a 160-bit word, \<^verbatim>\<open>bytes32\<close> and
  \<^verbatim>\<open>uint256\<close> are 256-bit words, \<^verbatim>\<open>string\<close> is a byte string. A
  \<^verbatim>\<open>mapping\<close> is a total function whose value at an unwritten key is the zero
  value of its type.
\<close>

subsection \<open>State variables, events, errors\<close>

type_synonym address = "160 word"
type_synonym bytes32 = "256 word"
type_synonym uint256 = "256 word"

record AlumniRecord =
  certId :: string
  dataHash :: bytes32
  issuer :: address
  timestamp :: uint256
  blockNumber :: uint256
  exists :: bool
  issuerName :: string

record contract =
  owner :: address
  authorizedIssuers :: "address \<Rightarrow> bool"
  issuerNames :: "address \<Rightarrow> string"
  records :: "string \<Rightarrow> AlumniRecord"
  certificateIds :: "string list"
  totalRecords :: uint256

text \<open>What a call reads from its execution environment.\<close>

record env =
  msg_sender :: address
  block_timestamp :: uint256
  block_number :: uint256

datatype event =
    AlumniRecordAdded string bytes32 address string uint256 uint256
  | IssuerAuthorized address string
  | IssuerRevoked address
  | RecordVerified string bool

text \<open>
  \<open>Revert msg\<close> is a failed \<^verbatim>\<open>require(cond, msg)\<close>; \<open>Panic 0x11\<close> is the
  arithmetic-overflow panic of checked arithmetic.
\<close>

datatype error = Revert string | Panic nat

text \<open>A failure: the error, and the storage as the call left it when it failed.\<close>

type_synonym failure = "error \<times> contract"

type_synonym 'a result = "failure + ('a \<times> event list \<times> contract)"

definition require :: "bool \<Rightarrow> string \<Rightarrow> contract \<Rightarrow> (failure + 'a) \<Rightarrow> (failure + 'a)" where
  "require cond msg s body = (if cond then body else Inl (Revert msg, s))"

text \<open>The zero value of \<^verbatim>\<open>AlumniRecord\<close>, read at a key never written.\<close>

definition zero_record :: AlumniRecord where
  "zero_record = \<lparr>certId = [], dataHash = 0, issuer = 0, timestamp = 0, blockNumber = 0,
     exists = False, issuerName = []\<rparr>"

subsection \<open>Modifiers\<close>

text \<open>Each modifier wraps the function body that the source writes as \<^verbatim>\<open>_;\<close>.\<close>

definition onlyOwner :: "env \<Rightarrow> contract \<Rightarrow> (failure + 'a) \<Rightarrow> (failure + 'a)" where
  "onlyOwner e s body = require (msg_sender e = owner s) ''Only owner can call this function'' s body"

definition onlyAuthorizedIssuer :: "env \<Rightarrow> contract \<Rightarrow> (failure + 'a) \<Rightarrow> (failure + 'a)" where
  "onlyAuthorizedIssuer e s body =
     require (authorizedIssuers s (msg_sender e)) ''Not an authorized issuer'' s body"

definition certIdNotExists :: "string \<Rightarrow> contract \<Rightarrow> (failure + 'a) \<Rightarrow> (failure + 'a)" where
  "certIdNotExists p_certId s body =
     require (\<not> exists (records s p_certId)) ''Certificate ID already exists'' s body"

definition certIdExists :: "string \<Rightarrow> contract \<Rightarrow> (failure + 'a) \<Rightarrow> (failure + 'a)" where
  "certIdExists p_certId s body =
     require (exists (records s p_certId)) ''Certificate ID does not exist'' s body"

subsection \<open>Constructor and admin functions\<close>

definition constructor :: "env \<Rightarrow> string \<Rightarrow> event list \<times> contract" where
  "constructor e p_institutionName =
     ([IssuerAuthorized (msg_sender e) p_institutionName],
      \<lparr>owner = msg_sender e,
       authorizedIssuers = (\<lambda>_. False)(msg_sender e := True),
       issuerNames = (\<lambda>_. [])(msg_sender e := p_institutionName),
       records = (\<lambda>_. zero_record),
       certificateIds = [],
       totalRecords = 0\<rparr>)"

definition authorizeIssuer :: "env \<Rightarrow> address \<Rightarrow> string \<Rightarrow> contract \<Rightarrow> unit result" where
  "authorizeIssuer e p_issuer p_name s =
     onlyOwner e s
      (require (p_issuer \<noteq> 0) ''Invalid issuer address'' s
      (require (\<not> authorizedIssuers s p_issuer) ''Issuer already authorized'' s
        (Inr ((), [IssuerAuthorized p_issuer p_name],
              s\<lparr>authorizedIssuers := (authorizedIssuers s)(p_issuer := True),
                issuerNames := (issuerNames s)(p_issuer := p_name)\<rparr>))))"

definition revokeIssuer :: "env \<Rightarrow> address \<Rightarrow> contract \<Rightarrow> unit result" where
  "revokeIssuer e p_issuer s =
     onlyOwner e s
      (require (authorizedIssuers s p_issuer) ''Issuer not authorized'' s
      (require (p_issuer \<noteq> owner s) ''Cannot revoke owner'' s
        (Inr ((), [IssuerRevoked p_issuer],
              s\<lparr>authorizedIssuers := (authorizedIssuers s)(p_issuer := False)\<rparr>))))"

definition transferOwnership :: "env \<Rightarrow> address \<Rightarrow> contract \<Rightarrow> unit result" where
  "transferOwnership e p_newOwner s =
     onlyOwner e s
      (require (p_newOwner \<noteq> 0) ''Invalid new owner address'' s
      (require (p_newOwner \<noteq> owner s) ''Already the owner'' s
        (let s1 = s\<lparr>owner := p_newOwner\<rparr>
         in Inr ((), [],
              if \<not> authorizedIssuers s1 p_newOwner
              then s1\<lparr>authorizedIssuers := (authorizedIssuers s1)(p_newOwner := True)\<rparr>
              else s1))))"

subsection \<open>Core functions\<close>

text \<open>
  \<^verbatim>\<open>totalRecords++\<close> is checked: at \<open>2\<^sup>2\<^sup>5\<^sup>6 - 1\<close> it panics, after the record and
  the index have been written.
\<close>

definition checked_inc :: "uint256 \<Rightarrow> contract \<Rightarrow> (uint256 \<Rightarrow> failure + 'a) \<Rightarrow> failure + 'a" where
  "checked_inc x s body = (if x = - 1 then Inl (Panic 0x11, s) else body (x + 1))"

definition addAlumniRecord ::
  "env \<Rightarrow> string \<Rightarrow> bytes32 \<Rightarrow> contract \<Rightarrow> (bool \<times> uint256 \<times> uint256) result" where
  "addAlumniRecord e p_certId p_dataHash s =
     onlyAuthorizedIssuer e s
      (certIdNotExists p_certId s
      (require (0 < length p_certId) ''Certificate ID cannot be empty'' s
      (require (p_dataHash \<noteq> 0) ''Data hash cannot be empty'' s
        (let newRecord = \<lparr>certId = p_certId, dataHash = p_dataHash, issuer = msg_sender e,
               timestamp = block_timestamp e, blockNumber = block_number e, exists = True,
               issuerName = issuerNames s (msg_sender e)\<rparr>;
             s1 = s\<lparr>records := (records s)(p_certId := newRecord)\<rparr>;
             s2 = s1\<lparr>certificateIds := certificateIds s1 @ [p_certId]\<rparr>
         in checked_inc (totalRecords s2) s2 (\<lambda>n.
              Inr ((True, block_timestamp e, block_number e),
                   [AlumniRecordAdded p_certId p_dataHash (msg_sender e)
                      (issuerNames s2 (msg_sender e)) (block_timestamp e) (block_number e)],
                   s2\<lparr>totalRecords := n\<rparr>))))))"

definition verifyRecord ::
  "string \<Rightarrow> bytes32 \<Rightarrow> contract \<Rightarrow> (bool \<times> address \<times> string \<times> uint256 \<times> uint256) result" where
  "verifyRecord p_certId p_dataHash s =
     certIdExists p_certId s
       (let record = records s p_certId;
            isValid = (dataHash record = p_dataHash)
        in Inr ((isValid, issuer record, issuerName record, timestamp record, blockNumber record),
                [RecordVerified p_certId isValid], s))"

definition getRecord ::
  "contract \<Rightarrow> string \<Rightarrow> bytes32 \<times> address \<times> string \<times> uint256 \<times> uint256 \<times> bool" where
  "getRecord s p_certId =
     (let record = records s p_certId
      in (dataHash record, issuer record, issuerName record, timestamp record,
          blockNumber record, exists record))"

definition recordExists :: "contract \<Rightarrow> string \<Rightarrow> bool" where
  "recordExists s p_certId = exists (records s p_certId)"

definition getAllCertificateIds :: "contract \<Rightarrow> string list" where
  "getAllCertificateIds s = certificateIds s"

definition getTotalRecords :: "contract \<Rightarrow> uint256" where
  "getTotalRecords s = totalRecords s"

definition isAuthorizedIssuer :: "contract \<Rightarrow> address \<Rightarrow> bool" where
  "isAuthorizedIssuer s p_address = authorizedIssuers s p_address"

definition getIssuerName :: "contract \<Rightarrow> address \<Rightarrow> string" where
  "getIssuerName s p_issuer = issuerNames s p_issuer"

subsection \<open>Hashing\<close>

text \<open>
  \<^verbatim>\<open>abi.encodePacked\<close> of strings is their bytes one after the other, with neither
  lengths nor padding. \<^verbatim>\<open>keccak256\<close> is a primitive of the execution environment, not
  code of the contract: it is a parameter of \<open>generateDataHash\<close>.
\<close>

definition abi_encodePacked :: "string list \<Rightarrow> string" where
  "abi_encodePacked strs = concat strs"

definition generateDataHash ::
  "(string \<Rightarrow> bytes32) \<Rightarrow> string \<Rightarrow> string \<Rightarrow> string \<Rightarrow> string \<Rightarrow> string \<Rightarrow> string \<Rightarrow> bytes32" where
  "generateDataHash keccak256 p_name p_rollNumber p_degree p_branch p_graduationYear p_certId =
     keccak256 (abi_encodePacked [p_name, p_rollNumber, p_degree, p_branch, p_graduationYear, p_certId])"

subsection \<open>Transactions\<close>

text \<open>
  The state-changing entry points as one datatype, so that a history of the contract is a
  list of calls, each with its environment. A call that fails reverts: whatever it had
  written is undone, and the storage is the one before the call.
\<close>

datatype call =
    AuthorizeIssuer address string
  | RevokeIssuer address
  | TransferOwnership address
  | AddAlumniRecord string bytes32
  | VerifyRecord string bytes32

definition drop_value :: "'a result \<Rightarrow> failure + (event list \<times> contract)" where
  "drop_value r = (case r of Inl err \<Rightarrow> Inl err | Inr (_, evs, s') \<Rightarrow> Inr (evs, s'))"

fun exec :: "env \<Rightarrow> call \<Rightarrow> contract \<Rightarrow> failure + (event list \<times> contract)" where
  "exec e (AuthorizeIssuer p_issuer p_name) s = drop_value (authorizeIssuer e p_issuer p_name s)"
| "exec e (RevokeIssuer p_issuer) s = drop_value (revokeIssuer e p_issuer s)"
| "exec e (TransferOwnership p_newOwner) s = drop_value (transferOwnership e p_newOwner s)"
| "exec e (AddAlumniRecord p_certId p_dataHash) s = drop_value (addAlumniRecord e p_certId p_dataHash s)"
| "exec e (VerifyRecord p_certId p_dataHash) s = drop_value (verifyRecord p_certId p_dataHash s)"

definition transact :: "env \<Rightarrow> call \<Rightarrow> contract \<Rightarrow> contract" where
  "transact e c s = (case exec e c s of Inl err \<Rightarrow> s | Inr (evs, s') \<Rightarrow> s')"

fun run :: "contract \<Rightarrow> (env \<times> call) list \<Rightarrow> contract" where
  "run s [] = s"
| "run s ((e, c) # txs) = run (transact e c s) txs"

definition deploy :: "env \<Rightarrow> string \<Rightarrow> contract" where
  "deploy e p_institutionName = snd (constructor e p_institutionName)"

text \<open>The certificate IDs that the successful \<^verbatim>\<open>addAlumniRecord\<close> calls of a history
  created, in the order of the calls.\<close>

fun created :: "contract \<Rightarrow> (env \<times> call) list \<Rightarrow> string list" where
  "created s [] = []"
| "created s ((e, c) # txs) =
     (case c of
        AddAlumniRecord p_certId p_dataHash \<Rightarrow>
          (case addAlumniRecord e p_certId p_dataHash s of
             Inl err \<Rightarrow> []
           | Inr ok \<Rightarrow> [p_certId])
      | _ \<Rightarrow> [])
     @ created (transact e c s) txs"

subsection \<open>The invariant of the storage\<close>

text \<open>
  The owner is an authorized issuer; the counter is the length of the index; the index has
  no duplicates and holds exactly the keys whose record exists.
\<close>

definition ledger_inv :: "contract \<Rightarrow> bool" where
  "ledger_inv s \<longleftrightarrow>
     authorizedIssuers s (owner s) \<and>
     unat (totalRecords s) = length (certificateIds s) \<and>
     distinct (certificateIds s) \<and>
     (\<forall>c. exists (records s c) \<longleftrightarrow> c \<in> set (certificateIds s))"

subsection \<open>A sample history\<close>

text \<open>
  The setting of the repository's test suite, to run the contract on: the owner deploys
  for "Test University", authorizes a second account as issuer for "College of
  Engineering", and this issuer adds the record \<open>CERT-001\<close>.
\<close>

definition as_owner :: env where
  "as_owner = \<lparr>msg_sender = 1, block_timestamp = 1700000000, block_number = 100\<rparr>"

definition as_issuer1 :: env where
  "as_issuer1 = \<lparr>msg_sender = 2, block_timestamp = 1700000600, block_number = 150\<rparr>"

definition as_unauthorized :: env where
  "as_unauthorized = \<lparr>msg_sender = 9, block_timestamp = 1700001200, block_number = 200\<rparr>"

definition deployed :: contract where
  "deployed = deploy as_owner ''Test University''"

definition with_issuer1 :: contract where
  "with_issuer1 = run deployed [(as_owner, AuthorizeIssuer 2 ''College of Engineering'')]"

definition with_record :: contract where
  "with_record = run with_issuer1 [(as_issuer1, AddAlumniRecord ''CERT-001'' 5)]"

section \<open>What a successful call does\<close>

text \<open>
  Each state-changing function succeeds exactly when all its checks pass, and then its
  result, its events and the new storage are the ones below.
\<close>

lemma authorizeIssuer_Inr:
  "authorizeIssuer e i n s = Inr (r, evs, s') \<longleftrightarrow>
     msg_sender e = owner s \<and> i \<noteq> 0 \<and> \<not> authorizedIssuers s i \<and>
     evs = [IssuerAuthorized i n] \<and>
     s' = s\<lparr>authorizedIssuers := (authorizedIssuers s)(i := True),
            issuerNames := (issuerNames s)(i := n)\<rparr>"
  unfolding authorizeIssuer_def onlyOwner_def require_def by auto

lemma revokeIssuer_Inr:
  "revokeIssuer e i s = Inr (r, evs, s') \<longleftrightarrow>
     msg_sender e = owner s \<and> authorizedIssuers s i \<and> i \<noteq> owner s \<and>
     evs = [IssuerRevoked i] \<and>
     s' = s\<lparr>authorizedIssuers := (authorizedIssuers s)(i := False)\<rparr>"
  unfolding revokeIssuer_def onlyOwner_def require_def by auto

lemma transferOwnership_Inr:
  "transferOwnership e n s = Inr (r, evs, s') \<longleftrightarrow>
     msg_sender e = owner s \<and> n \<noteq> 0 \<and> n \<noteq> owner s \<and> evs = [] \<and>
     s' = s\<lparr>owner := n, authorizedIssuers := (authorizedIssuers s)(n := True)\<rparr>"
  unfolding transferOwnership_def onlyOwner_def require_def Let_def
  by (cases "authorizedIssuers s n") (auto simp: fun_upd_idem)

lemma addAlumniRecord_Inr:
  "addAlumniRecord e c h s = Inr (r, evs, s') \<longleftrightarrow>
     authorizedIssuers s (msg_sender e) \<and> \<not> exists (records s c) \<and> c \<noteq> [] \<and> h \<noteq> 0 \<and>
     totalRecords s \<noteq> - 1 \<and>
     r = (True, block_timestamp e, block_number e) \<and>
     evs = [AlumniRecordAdded c h (msg_sender e) (issuerNames s (msg_sender e))
              (block_timestamp e) (block_number e)] \<and>
     s' = s\<lparr>records := (records s)(c :=
              \<lparr>certId = c, dataHash = h, issuer = msg_sender e, timestamp = block_timestamp e,
               blockNumber = block_number e, exists = True,
               issuerName = issuerNames s (msg_sender e)\<rparr>),
            certificateIds := certificateIds s @ [c],
            totalRecords := totalRecords s + 1\<rparr>"
  unfolding addAlumniRecord_def onlyAuthorizedIssuer_def certIdNotExists_def require_def
    checked_inc_def Let_def
  by auto

lemma verifyRecord_Inr:
  "verifyRecord c h s = Inr (r, evs, s') \<longleftrightarrow>
     exists (records s c) \<and>
     r = (dataHash (records s c) = h, issuer (records s c), issuerName (records s c),
          timestamp (records s c), blockNumber (records s c)) \<and>
     evs = [RecordVerified c (dataHash (records s c) = h)] \<and> s' = s"
  unfolding verifyRecord_def certIdExists_def require_def Let_def by auto

lemma drop_value_Inr:
  "drop_value x = Inr (evs, s') \<longleftrightarrow> (\<exists>r. x = Inr (r, evs, s'))"
  by (auto simp: drop_value_def split: sum.splits)

lemmas call_Inr =
  drop_value_Inr authorizeIssuer_Inr revokeIssuer_Inr transferOwnership_Inr
  addAlumniRecord_Inr verifyRecord_Inr

section \<open>The invariant holds in every reachable state\<close>

lemma checked_inc_unat: "x \<noteq> - 1 \<Longrightarrow> unat (x + 1 :: uint256) = Suc (unat x)"
proof -
  assume "x \<noteq> - 1"
  then have "1 + x \<noteq> 0"
    by (simp add: add_eq_0_iff)
  then have "unat (1 + x) = Suc (unat x)"
    by (rule unatSuc)
  then show ?thesis
    by (simp add: add.commute)
qed

lemma ledger_inv_deploy: "ledger_inv (deploy e n)"
  by (simp add: ledger_inv_def deploy_def constructor_def zero_record_def)

lemma ledger_inv_exec:
  assumes "ledger_inv s" and "exec e c s = Inr (evs, s')"
  shows "ledger_inv s'"
proof (cases c)
  case (AuthorizeIssuer i n)
  with assms show ?thesis
    by (auto simp: drop_value_Inr authorizeIssuer_Inr ledger_inv_def)
next
  case (RevokeIssuer i)
  with assms show ?thesis
    by (auto simp: drop_value_Inr revokeIssuer_Inr ledger_inv_def)
next
  case (TransferOwnership n)
  with assms show ?thesis
    by (auto simp: drop_value_Inr transferOwnership_Inr ledger_inv_def)
next
  case (AddAlumniRecord cid h)
  with assms show ?thesis
    by (auto simp: drop_value_Inr addAlumniRecord_Inr ledger_inv_def checked_inc_unat)
next
  case (VerifyRecord cid h)
  with assms show ?thesis
    by (auto simp: drop_value_Inr verifyRecord_Inr)
qed

lemma transact_Inl: "exec e c s = Inl f \<Longrightarrow> transact e c s = s"
  by (simp add: transact_def)

lemma transact_Inr: "exec e c s = Inr (evs, s') \<Longrightarrow> transact e c s = s'"
  by (simp add: transact_def)

lemma ledger_inv_transact: "ledger_inv s \<Longrightarrow> ledger_inv (transact e c s)"
  by (auto simp: transact_def dest: ledger_inv_exec split: sum.splits)

lemma ledger_inv_run: "ledger_inv s \<Longrightarrow> ledger_inv (run s txs)"
  by (induction txs arbitrary: s) (auto simp: ledger_inv_transact)

section \<open>Histories: the index and the records only grow\<close>

text \<open>
  A call appends to the index exactly the certificate ID it created, and never touches a
  record that already exists.
\<close>

lemma run_append: "run s (txs @ later) = run (run s txs) later"
  by (induction txs arbitrary: s) auto

lemma created_single:
  "created s [(e, c)] =
     (case c of
        AddAlumniRecord k h \<Rightarrow> (case exec e c s of Inl f \<Rightarrow> [] | Inr ok \<Rightarrow> [k])
      | _ \<Rightarrow> [])"
  by (cases c) (auto simp: drop_value_def split: sum.splits)

lemma certificateIds_exec:
  assumes "exec e c s = Inr (evs, s')"
  shows "certificateIds s' = certificateIds s @ created s [(e, c)]"
proof -
  have "created s [(e, c)] = (case c of AddAlumniRecord k h \<Rightarrow> [k] | _ \<Rightarrow> [])"
    unfolding created_single assms by (simp split: call.splits)
  with assms show ?thesis
    by (cases c) (auto simp: call_Inr simp del: created.simps)
qed

lemma certificateIds_transact:
  "certificateIds (transact e c s) = certificateIds s @ created s [(e, c)]"
proof (cases "exec e c s")
  case (Inl f)
  then show ?thesis
    by (cases c) (simp_all add: transact_Inl created_single del: created.simps)
next
  case (Inr ok)
  then obtain evs s' where ok: "exec e c s = Inr (evs, s')"
    by (cases ok) simp
  then show ?thesis
    by (simp add: transact_Inr certificateIds_exec del: created.simps)
qed

lemma created_Cons:
  "created s (tx # txs) = created s [tx] @ created (transact (fst tx) (snd tx) s) txs"
  by (cases tx) simp

lemma certificateIds_run: "certificateIds (run s txs) = certificateIds s @ created s txs"
proof (induction txs arbitrary: s)
  case Nil
  show ?case by simp
next
  case (Cons tx txs)
  obtain e c where tx: "tx = (e, c)" by (cases tx)
  have "certificateIds (run s (tx # txs))
          = certificateIds (transact e c s) @ created (transact e c s) txs"
    using Cons.IH [of "transact e c s"] tx by simp
  also have "\<dots> = certificateIds s @ created s [(e, c)] @ created (transact e c s) txs"
    by (simp add: certificateIds_transact)
  also have "\<dots> = certificateIds s @ created s (tx # txs)"
    using created_Cons [of s tx txs] tx by simp
  finally show ?case .
qed

lemma records_exec:
  assumes "exec e c s = Inr (evs, s')" and "exists (records s k)"
  shows "records s' k = records s k"
  using assms by (cases c) (auto simp: call_Inr)

lemma records_transact:
  "exists (records s k) \<Longrightarrow> records (transact e c s) k = records s k"
proof (cases "exec e c s")
  case (Inl f)
  then show ?thesis by (simp add: transact_Inl)
next
  case (Inr ok)
  assume k: "exists (records s k)"
  from Inr obtain evs s' where ok: "exec e c s = Inr (evs, s')"
    by (cases ok) simp
  then show ?thesis
    using k by (simp add: transact_Inr records_exec)
qed

lemma records_run:
  "exists (records s k) \<Longrightarrow> records (run s txs) k = records s k"
proof (induction txs arbitrary: s)
  case Nil
  show ?case by simp
next
  case (Cons tx txs)
  obtain e c where tx: "tx = (e, c)" by (cases tx)
  have kept: "records (transact e c s) k = records s k"
    using Cons.prems by (rule records_transact)
  then have "exists (records (transact e c s) k)"
    using Cons.prems by simp
  then have "records (run (transact e c s) txs) k = records (transact e c s) k"
    by (rule Cons.IH)
  with kept tx show ?case by simp
qed

text \<open>Unfolding every function of the contract, to run it on concrete inputs.\<close>

lemmas call_defs =
  deploy_def constructor_def zero_record_def transact_def drop_value_def require_def
  onlyOwner_def onlyAuthorizedIssuer_def certIdNotExists_def certIdExists_def
  authorizeIssuer_def revokeIssuer_def transferOwnership_def checked_inc_def
  addAlumniRecord_def verifyRecord_def
  getRecord_def recordExists_def getAllCertificateIds_def getTotalRecords_def
  isAuthorizedIssuer_def getIssuerName_def

lemmas sample_defs =
  as_owner_def as_issuer1_def as_unauthorized_def deployed_def with_issuer1_def with_record_def

text \<open>The sample history, evaluated.\<close>

lemma with_issuer1_eq:
  "with_issuer1 =
     \<lparr>owner = 1,
      authorizedIssuers = (\<lambda>_. False)(1 := True, 2 := True),
      issuerNames = (\<lambda>_. [])(1 := ''Test University'', 2 := ''College of Engineering''),
      records = (\<lambda>_. zero_record),
      certificateIds = [],
      totalRecords = 0\<rparr>"
  by (simp add: sample_defs call_defs)

lemma with_record_eq:
  "with_record =
     with_issuer1\<lparr>records := (\<lambda>_. zero_record)(''CERT-001'' :=
          \<lparr>certId = ''CERT-001'', dataHash = 5, issuer = 2, timestamp = 1700000600,
           blockNumber = 150, exists = True, issuerName = ''College of Engineering''\<rparr>),
        certificateIds := [''CERT-001''],
        totalRecords := 1\<rparr>"
  unfolding with_record_def by (simp add: with_issuer1_eq as_issuer1_def call_defs)

section \<open>The owner is always an authorized issuer\<close>

text \<open>
  Claim C6. In every state reached from the constructor by any sequence of calls (by any
  callers, succeeding or reverting), the current owner is an authorized issuer. The three
  mechanisms: the constructor authorizes the deployer; a successful
  \<^verbatim>\<open>transferOwnership\<close> makes its argument the owner and leaves it authorized; and
  in such a state \<^verbatim>\<open>revokeIssuer\<close> of the current owner always reverts, having
  written nothing.
\<close>

theorem owner_always_authorized:
  "isAuthorizedIssuer (run (deploy e0 name) txs) (owner (run (deploy e0 name) txs)) \<and>
   isAuthorizedIssuer (deploy e0 name) (owner (deploy e0 name)) \<and>
   (case transferOwnership e p_newOwner (run (deploy e0 name) txs) of
      Inl f \<Rightarrow> True
    | Inr (r, evs, s') \<Rightarrow> owner s' = p_newOwner \<and> isAuthorizedIssuer s' p_newOwner) \<and>
   (\<exists>msg. revokeIssuer e (owner (run (deploy e0 name) txs)) (run (deploy e0 name) txs)
            = Inl (Revert msg, run (deploy e0 name) txs))"
proof -
  let ?s = "run (deploy e0 name) txs"
  have inv: "ledger_inv ?s"
    by (rule ledger_inv_run [OF ledger_inv_deploy])
  have "isAuthorizedIssuer ?s (owner ?s)"
    using inv by (simp add: ledger_inv_def isAuthorizedIssuer_def)
  moreover have "isAuthorizedIssuer (deploy e0 name) (owner (deploy e0 name))"
    using ledger_inv_deploy [of e0 name] by (simp add: ledger_inv_def isAuthorizedIssuer_def)
  moreover have "case transferOwnership e p_newOwner ?s of
      Inl f \<Rightarrow> True
    | Inr (r, evs, s') \<Rightarrow> owner s' = p_newOwner \<and> isAuthorizedIssuer s' p_newOwner"
    by (auto simp: transferOwnership_Inr isAuthorizedIssuer_def split: sum.splits)
  moreover have "\<exists>msg. revokeIssuer e (owner ?s) ?s = Inl (Revert msg, ?s)"
    by (simp add: revokeIssuer_def onlyOwner_def require_def)
  ultimately show ?thesis
    by blast
qed

section \<open>The index of certificate IDs\<close>

text \<open>
  Claim C8. In every state reached from the constructor, the array returned by
  \<^verbatim>\<open>getAllCertificateIds\<close> has as many entries as \<^verbatim>\<open>getTotalRecords\<close>
  says; it is the list of the certificate IDs created by the successful
  \<^verbatim>\<open>addAlumniRecord\<close> calls of the history, in the order of the calls; and whatever
  calls follow, it stays a prefix of the later index (nothing is reordered or removed).
\<close>

theorem index_matches_count_and_creation_order:
  "length (getAllCertificateIds (run (deploy e0 name) txs))
     = unat (getTotalRecords (run (deploy e0 name) txs)) \<and>
   getAllCertificateIds (run (deploy e0 name) txs) = created (deploy e0 name) txs \<and>
   prefix (getAllCertificateIds (run (deploy e0 name) txs))
          (getAllCertificateIds (run (deploy e0 name) (txs @ later)))"
proof -
  let ?s0 = "deploy e0 name"
  have "ledger_inv (run ?s0 txs)"
    by (rule ledger_inv_run [OF ledger_inv_deploy])
  then have len: "length (getAllCertificateIds (run ?s0 txs)) = unat (getTotalRecords (run ?s0 txs))"
    by (simp add: ledger_inv_def getAllCertificateIds_def getTotalRecords_def)
  have "certificateIds ?s0 = []"
    by (simp add: deploy_def constructor_def)
  then have ids: "getAllCertificateIds (run ?s0 txs) = created ?s0 txs"
    by (simp add: getAllCertificateIds_def certificateIds_run)
  have "certificateIds (run ?s0 (txs @ later))
          = certificateIds (run ?s0 txs) @ created (run ?s0 txs) later"
    by (simp add: run_append certificateIds_run)
  then have pre: "prefix (getAllCertificateIds (run ?s0 txs))
                         (getAllCertificateIds (run ?s0 (txs @ later)))"
    by (simp add: getAllCertificateIds_def)
  from len ids pre show ?thesis by blast
qed

section \<open>Adding the same certificate ID twice\<close>

text \<open>
  Claim C1. In a state reached from the constructor, take a certificate ID that is not
  empty and has no record yet, a data hash that is not zero, and two callers that are
  authorized issuers (the counter \<^verbatim>\<open>totalRecords\<close> being below its maximum, so that
  its checked increment does not panic). The first \<^verbatim>\<open>addAlumniRecord\<close> succeeds and
  returns \<open>(true, block.timestamp, block.number)\<close>; a second one with the same
  certificate ID, whatever its data hash and whichever authorized caller sends it, reverts
  with "Certificate ID already exists" and leaves the storage as the first call left it;
  the record read back is the one the first call stored, and the certificate ID occurs
  exactly once in the index.
\<close>

theorem add_twice:
  assumes reach: "s = run (deploy e0 name) txs"
    and auth1: "isAuthorizedIssuer s (msg_sender e1)"
    and auth2: "isAuthorizedIssuer s (msg_sender e2)"
    and valid: "p_certId \<noteq> []" "p_dataHash \<noteq> 0"
    and fresh: "\<not> recordExists s p_certId"
    and room: "getTotalRecords s \<noteq> - 1"
    and first: "s1 = transact e1 (AddAlumniRecord p_certId p_dataHash) s"
  shows "addAlumniRecord e1 p_certId p_dataHash s =
           Inr ((True, block_timestamp e1, block_number e1),
                [AlumniRecordAdded p_certId p_dataHash (msg_sender e1)
                   (getIssuerName s (msg_sender e1)) (block_timestamp e1) (block_number e1)],
                s1) \<and>
         addAlumniRecord e2 p_certId h2 s1 = Inl (Revert ''Certificate ID already exists'', s1) \<and>
         transact e2 (AddAlumniRecord p_certId h2) s1 = s1 \<and>
         getRecord s1 p_certId =
           (p_dataHash, msg_sender e1, getIssuerName s (msg_sender e1),
            block_timestamp e1, block_number e1, True) \<and>
         count_list (getAllCertificateIds s1) p_certId = 1 \<and>
         unat (getTotalRecords s1) = unat (getTotalRecords s) + 1"
proof -
  let ?rec = "\<lparr>certId = p_certId, dataHash = p_dataHash, issuer = msg_sender e1,
      timestamp = block_timestamp e1, blockNumber = block_number e1, exists = True,
      issuerName = issuerNames s (msg_sender e1)\<rparr>"
  let ?s1 = "s\<lparr>records := (records s)(p_certId := ?rec),
      certificateIds := certificateIds s @ [p_certId], totalRecords := totalRecords s + 1\<rparr>"
  have inv: "ledger_inv s"
    unfolding reach by (rule ledger_inv_run [OF ledger_inv_deploy])
  have add1: "addAlumniRecord e1 p_certId p_dataHash s =
      Inr ((True, block_timestamp e1, block_number e1),
           [AlumniRecordAdded p_certId p_dataHash (msg_sender e1) (issuerNames s (msg_sender e1))
              (block_timestamp e1) (block_number e1)], ?s1)"
    using auth1 valid fresh room
    by (simp add: addAlumniRecord_Inr isAuthorizedIssuer_def recordExists_def getTotalRecords_def)
  then have s1: "s1 = ?s1"
    by (simp add: first transact_def drop_value_def)
  have add2: "addAlumniRecord e2 p_certId h2 s1 = Inl (Revert ''Certificate ID already exists'', s1)"
    using auth2
    by (simp add: s1 addAlumniRecord_def onlyAuthorizedIssuer_def certIdNotExists_def require_def
        isAuthorizedIssuer_def)
  then have same: "transact e2 (AddAlumniRecord p_certId h2) s1 = s1"
    by (simp add: transact_def drop_value_def)
  have rec: "getRecord s1 p_certId =
      (p_dataHash, msg_sender e1, getIssuerName s (msg_sender e1),
       block_timestamp e1, block_number e1, True)"
    by (simp add: s1 getRecord_def getIssuerName_def)
  have "p_certId \<notin> set (certificateIds s)"
    using inv fresh by (simp add: ledger_inv_def recordExists_def)
  then have once: "count_list (getAllCertificateIds s1) p_certId = 1"
    by (simp add: s1 getAllCertificateIds_def count_list_0_iff)
  have total: "unat (getTotalRecords s1) = unat (getTotalRecords s) + 1"
    using room by (simp add: s1 getTotalRecords_def checked_inc_unat)
  from add1 s1 add2 same rec once total show ?thesis
    by (simp add: getIssuerName_def)
qed

theorem add_twice_witness:
  "addAlumniRecord as_issuer1 ''CERT-001'' 5 with_issuer1 =
     Inr ((True, 1700000600, 150),
          [AlumniRecordAdded ''CERT-001'' 5 2 ''College of Engineering'' 1700000600 150],
          with_record) \<and>
   addAlumniRecord as_owner ''CERT-001'' 7 with_record =
     Inl (Revert ''Certificate ID already exists'', with_record) \<and>
   getRecord with_record ''CERT-001'' = (5, 2, ''College of Engineering'', 1700000600, 150, True) \<and>
   count_list (getAllCertificateIds with_record) ''CERT-001'' = 1"
proof -
  have reach: "with_issuer1 =
      run (deploy as_owner ''Test University'') [(as_owner, AuthorizeIssuer 2 ''College of Engineering'')]"
    by (simp add: with_issuer1_def deployed_def)
  have auth1: "isAuthorizedIssuer with_issuer1 (msg_sender as_issuer1)"
    and auth2: "isAuthorizedIssuer with_issuer1 (msg_sender as_owner)"
    and fresh: "\<not> recordExists with_issuer1 ''CERT-001''"
    and room: "getTotalRecords with_issuer1 \<noteq> - 1"
    by (simp_all add: with_issuer1_eq as_issuer1_def as_owner_def call_defs)
  have valid: "''CERT-001'' \<noteq> []" "(5 :: bytes32) \<noteq> 0"
    by simp_all
  have first: "with_record = transact as_issuer1 (AddAlumniRecord ''CERT-001'' 5) with_issuer1"
    by (simp add: with_record_def)
  have name: "getIssuerName with_issuer1 2 = ''College of Engineering''"
    and env: "msg_sender as_issuer1 = 2" "block_timestamp as_issuer1 = 1700000600"
      "block_number as_issuer1 = 150"
    by (simp_all add: with_issuer1_eq as_issuer1_def getIssuerName_def)
  from add_twice [OF reach auth1 auth2 valid fresh room first, of 7]
  show ?thesis
    unfolding env name by blast
qed

section \<open>Verifying a record\<close>

text \<open>
  Claim C2. \<^verbatim>\<open>verifyRecord\<close> fails exactly when the certificate ID has no record,
  and then with "Certificate ID does not exist". When the record exists the call succeeds
  whether or not the hashes match: \<open>isValid\<close> is the equality of the stored
  \<^verbatim>\<open>dataHash\<close> with the candidate, and the issuer, the issuer name, the timestamp
  and the block number of the record are returned in both cases; the storage is unchanged.
  In a state reached from the constructor, the record exists exactly when a successful
  \<^verbatim>\<open>addAlumniRecord\<close> of the history created it.
\<close>

theorem verifyRecord_NotFound_or_result:
  "((\<exists>f. verifyRecord p_certId p_dataHash s = Inl f) \<longleftrightarrow> \<not> recordExists s p_certId) \<and>
   (\<not> recordExists s p_certId \<longrightarrow>
      verifyRecord p_certId p_dataHash s = Inl (Revert ''Certificate ID does not exist'', s)) \<and>
   (recordExists s p_certId \<longrightarrow>
      verifyRecord p_certId p_dataHash s =
        Inr ((dataHash (records s p_certId) = p_dataHash,
              issuer (records s p_certId), issuerName (records s p_certId),
              timestamp (records s p_certId), blockNumber (records s p_certId)),
             [RecordVerified p_certId (dataHash (records s p_certId) = p_dataHash)], s)) \<and>
   (recordExists (run (deploy e0 name) txs) p_certId \<longleftrightarrow>
      p_certId \<in> set (created (deploy e0 name) txs))"
proof -
  have call: "((\<exists>f. verifyRecord p_certId p_dataHash s = Inl f) \<longleftrightarrow> \<not> recordExists s p_certId) \<and>
   (\<not> recordExists s p_certId \<longrightarrow>
      verifyRecord p_certId p_dataHash s = Inl (Revert ''Certificate ID does not exist'', s)) \<and>
   (recordExists s p_certId \<longrightarrow>
      verifyRecord p_certId p_dataHash s =
        Inr ((dataHash (records s p_certId) = p_dataHash,
              issuer (records s p_certId), issuerName (records s p_certId),
              timestamp (records s p_certId), blockNumber (records s p_certId)),
             [RecordVerified p_certId (dataHash (records s p_certId) = p_dataHash)], s))"
    by (simp add: verifyRecord_def certIdExists_def require_def recordExists_def Let_def)
  let ?s0 = "deploy e0 name"
  have "ledger_inv (run ?s0 txs)"
    by (rule ledger_inv_run [OF ledger_inv_deploy])
  then have "recordExists (run ?s0 txs) p_certId \<longleftrightarrow> p_certId \<in> set (certificateIds (run ?s0 txs))"
    by (simp add: ledger_inv_def recordExists_def)
  moreover have "certificateIds (run ?s0 txs) = created ?s0 txs"
    by (simp add: certificateIds_run deploy_def constructor_def)
  ultimately have history: "recordExists (run ?s0 txs) p_certId \<longleftrightarrow> p_certId \<in> set (created ?s0 txs)"
    by simp
  from call history show ?thesis
    by blast
qed

theorem verifyRecord_NotFound_or_result_witness:
  "verifyRecord ''NON-EXISTENT'' 5 with_record =
     Inl (Revert ''Certificate ID does not exist'', with_record) \<and>
   verifyRecord ''CERT-001'' 5 with_record =
     Inr ((True, 2, ''College of Engineering'', 1700000600, 150),
          [RecordVerified ''CERT-001'' True], with_record) \<and>
   verifyRecord ''CERT-001'' 6 with_record =
     Inr ((False, 2, ''College of Engineering'', 1700000600, 150),
          [RecordVerified ''CERT-001'' False], with_record)"
proof -
  have absent: "\<not> recordExists with_record ''NON-EXISTENT''"
    and present: "recordExists with_record ''CERT-001''"
    and stored: "records with_record ''CERT-001'' =
      \<lparr>certId = ''CERT-001'', dataHash = 5, issuer = 2, timestamp = 1700000600,
       blockNumber = 150, exists = True, issuerName = ''College of Engineering''\<rparr>"
    by (simp_all add: with_record_eq recordExists_def zero_record_def)
  from verifyRecord_NotFound_or_result [of "''NON-EXISTENT''" 5 with_record]
    verifyRecord_NotFound_or_result [of "''CERT-001''" 5 with_record]
    verifyRecord_NotFound_or_result [of "''CERT-001''" 6 with_record]
    absent present
  show ?thesis
    unfolding stored by simp
qed

section \<open>Revoking an issuer\<close>

text \<open>
  Claim C5. After an issuer created a record, and after any further calls, a successful
  \<^verbatim>\<open>revokeIssuer\<close> of that issuer changes one thing only, the issuer's entry in
  \<^verbatim>\<open>authorizedIssuers\<close>, which becomes false. The issuer's stored name is the
  same, \<^verbatim>\<open>getRecord\<close> returns the same for every certificate ID, and the record
  still carries the issuer name as it was when the record was created.
\<close>

theorem revocation_keeps_records:
  assumes created: "addAlumniRecord e p_certId p_dataHash s = Inr (ret, evs, s1)"
    and later: "s2 = run s1 txs"
    and revoked: "revokeIssuer e' (msg_sender e) s2 = Inr (ret', evs', s3)"
  shows "s3 = s2\<lparr>authorizedIssuers := (authorizedIssuers s2)(msg_sender e := False)\<rparr> \<and>
         \<not> isAuthorizedIssuer s3 (msg_sender e) \<and>
         getIssuerName s3 (msg_sender e) = getIssuerName s2 (msg_sender e) \<and>
         getRecord s3 = getRecord s2 \<and>
         getRecord s3 p_certId =
           (p_dataHash, msg_sender e, getIssuerName s (msg_sender e),
            block_timestamp e, block_number e, True)"
proof -
  let ?rec = "\<lparr>certId = p_certId, dataHash = p_dataHash, issuer = msg_sender e,
      timestamp = block_timestamp e, blockNumber = block_number e, exists = True,
      issuerName = issuerNames s (msg_sender e)\<rparr>"
  from created have "records s1 p_certId = ?rec"
    by (simp add: addAlumniRecord_Inr)
  then have rec2: "records s2 p_certId = ?rec"
    unfolding later by (simp add: records_run)
  from revoked have s3: "s3 = s2\<lparr>authorizedIssuers := (authorizedIssuers s2)(msg_sender e := False)\<rparr>"
    by (simp add: revokeIssuer_Inr)
  have flag: "\<not> isAuthorizedIssuer s3 (msg_sender e)"
    by (simp add: s3 isAuthorizedIssuer_def)
  have name: "getIssuerName s3 (msg_sender e) = getIssuerName s2 (msg_sender e)"
    by (simp add: s3 getIssuerName_def)
  have recs: "getRecord s3 = getRecord s2"
    by (rule ext) (simp add: s3 getRecord_def)
  have snap: "getRecord s3 p_certId =
           (p_dataHash, msg_sender e, getIssuerName s (msg_sender e),
            block_timestamp e, block_number e, True)"
    using rec2 by (simp add: recs getRecord_def getIssuerName_def)
  from s3 flag name recs snap show ?thesis
    by blast
qed

theorem revocation_keeps_records_witness:
  "revokeIssuer as_owner 2 with_record =
     Inr ((), [IssuerRevoked 2], transact as_owner (RevokeIssuer 2) with_record) \<and>
   getRecord (transact as_owner (RevokeIssuer 2) with_record) ''CERT-001'' =
     (5, 2, ''College of Engineering'', 1700000600, 150, True) \<and>
   \<not> isAuthorizedIssuer (transact as_owner (RevokeIssuer 2) with_record) 2 \<and>
   getIssuerName (transact as_owner (RevokeIssuer 2) with_record) 2 = ''College of Engineering''"
proof -
  let ?s3 = "transact as_owner (RevokeIssuer 2) with_record"
  have created: "addAlumniRecord as_issuer1 ''CERT-001'' 5 with_issuer1 =
      Inr ((True, 1700000600, 150),
           [AlumniRecordAdded ''CERT-001'' 5 2 ''College of Engineering'' 1700000600 150],
           with_record)"
    unfolding with_record_eq by (simp add: with_issuer1_eq as_issuer1_def call_defs)
  have later: "with_record = run with_record []"
    by simp
  have revoked: "revokeIssuer as_owner (msg_sender as_issuer1) with_record =
      Inr ((), [IssuerRevoked 2], ?s3)"
    by (simp add: with_record_eq with_issuer1_eq as_owner_def as_issuer1_def call_defs)
  have name: "getIssuerName with_issuer1 2 = ''College of Engineering''"
    and name2: "getIssuerName with_record 2 = ''College of Engineering''"
    and env: "msg_sender as_issuer1 = 2" "block_timestamp as_issuer1 = 1700000600"
      "block_number as_issuer1 = 150"
    by (simp_all add: with_record_eq with_issuer1_eq as_issuer1_def getIssuerName_def)
  from revocation_keeps_records [OF created later revoked] revoked
  show ?thesis
    unfolding env name name2 by blast
qed

section \<open>Transferring ownership\<close>

text \<open>
  Claim C7. \<^verbatim>\<open>transferOwnership\<close> reverts with "Only owner can call this function"
  unless the caller is the owner, then with "Invalid new owner address" for the zero
  address, then with "Already the owner" for the current owner. Otherwise it succeeds: the
  argument becomes the owner and is an authorized issuer, every other authorization, every
  issuer name and the ledger are untouched. From then on \<^verbatim>\<open>authorizeIssuer\<close> sent
  by the new owner succeeds (for an address that is not zero and not yet authorized), and
  sent by the previous owner it reverts with "Only owner can call this function".
\<close>

theorem transferOwnership_hands_over:
  "transferOwnership e p_newOwner s =
     (if msg_sender e \<noteq> owner s then Inl (Revert ''Only owner can call this function'', s)
      else if p_newOwner = 0 then Inl (Revert ''Invalid new owner address'', s)
      else if p_newOwner = owner s then Inl (Revert ''Already the owner'', s)
      else Inr ((), [],
             s\<lparr>owner := p_newOwner,
               authorizedIssuers := (authorizedIssuers s)(p_newOwner := True)\<rparr>)) \<and>
   (transferOwnership e p_newOwner s = Inr (r, evs, s') \<longrightarrow>
      msg_sender e = owner s \<and> owner s' = p_newOwner \<and> isAuthorizedIssuer s' p_newOwner \<and>
      (\<forall>a. a \<noteq> p_newOwner \<longrightarrow> isAuthorizedIssuer s' a = isAuthorizedIssuer s a) \<and>
      (\<forall>a. getIssuerName s' a = getIssuerName s a) \<and>
      records s' = records s \<and> certificateIds s' = certificateIds s \<and>
      totalRecords s' = totalRecords s \<and>
      (\<forall>e2 i nm. msg_sender e2 = p_newOwner \<and> i \<noteq> 0 \<and> \<not> isAuthorizedIssuer s' i \<longrightarrow>
         (\<exists>s''. authorizeIssuer e2 i nm s' = Inr ((), [IssuerAuthorized i nm], s''))) \<and>
      (\<forall>e1 i nm. msg_sender e1 = owner s \<longrightarrow>
         authorizeIssuer e1 i nm s' = Inl (Revert ''Only owner can call this function'', s')))"
proof -
  have chain: "transferOwnership e p_newOwner s =
     (if msg_sender e \<noteq> owner s then Inl (Revert ''Only owner can call this function'', s)
      else if p_newOwner = 0 then Inl (Revert ''Invalid new owner address'', s)
      else if p_newOwner = owner s then Inl (Revert ''Already the owner'', s)
      else Inr ((), [],
             s\<lparr>owner := p_newOwner,
               authorizedIssuers := (authorizedIssuers s)(p_newOwner := True)\<rparr>))"
    by (cases "authorizedIssuers s p_newOwner")
      (simp_all add: transferOwnership_def onlyOwner_def require_def Let_def fun_upd_idem)
  moreover have "transferOwnership e p_newOwner s = Inr (r, evs, s') \<longrightarrow>
      msg_sender e = owner s \<and> owner s' = p_newOwner \<and> isAuthorizedIssuer s' p_newOwner \<and>
      (\<forall>a. a \<noteq> p_newOwner \<longrightarrow> isAuthorizedIssuer s' a = isAuthorizedIssuer s a) \<and>
      (\<forall>a. getIssuerName s' a = getIssuerName s a) \<and>
      records s' = records s \<and> certificateIds s' = certificateIds s \<and>
      totalRecords s' = totalRecords s \<and>
      (\<forall>e2 i nm. msg_sender e2 = p_newOwner \<and> i \<noteq> 0 \<and> \<not> isAuthorizedIssuer s' i \<longrightarrow>
         (\<exists>s''. authorizeIssuer e2 i nm s' = Inr ((), [IssuerAuthorized i nm], s''))) \<and>
      (\<forall>e1 i nm. msg_sender e1 = owner s \<longrightarrow>
         authorizeIssuer e1 i nm s' = Inl (Revert ''Only owner can call this function'', s'))"
    by (auto simp: transferOwnership_Inr authorizeIssuer_Inr isAuthorizedIssuer_def
        getIssuerName_def authorizeIssuer_def onlyOwner_def require_def)
  ultimately show ?thesis
    by blast
qed

theorem transferOwnership_hands_over_witness:
  "transferOwnership as_owner 2 deployed =
     Inr ((), [], transact as_owner (TransferOwnership 2) deployed) \<and>
   owner (transact as_owner (TransferOwnership 2) deployed) = 2 \<and>
   isAuthorizedIssuer (transact as_owner (TransferOwnership 2) deployed) 2 \<and>
   (\<exists>s''. authorizeIssuer as_issuer1 3 ''College of Science''
            (transact as_owner (TransferOwnership 2) deployed)
          = Inr ((), [IssuerAuthorized 3 ''College of Science''], s'')) \<and>
   authorizeIssuer as_owner 3 ''College of Science''
     (transact as_owner (TransferOwnership 2) deployed)
   = Inl (Revert ''Only owner can call this function'',
          transact as_owner (TransferOwnership 2) deployed)"
proof -
  let ?s' = "transact as_owner (TransferOwnership 2) deployed"
  have ok: "transferOwnership as_owner 2 deployed = Inr ((), [], ?s')"
    by (simp add: sample_defs call_defs)
  have new: "msg_sender as_issuer1 = 2 \<and> (3 :: address) \<noteq> 0 \<and> \<not> isAuthorizedIssuer ?s' 3"
    and old: "msg_sender as_owner = owner deployed"
    by (simp_all add: sample_defs call_defs)
  from transferOwnership_hands_over [of as_owner 2 deployed "()" "[]" ?s'] ok new old
  show ?thesis
    by blast
qed

section \<open>Failed calls\<close>

text \<open>
  Claim C9. A call of \<^verbatim>\<open>authorizeIssuer\<close>, \<^verbatim>\<open>revokeIssuer\<close>,
  \<^verbatim>\<open>transferOwnership\<close>, \<^verbatim>\<open>addAlumniRecord\<close> or \<^verbatim>\<open>verifyRecord\<close>
  that fails leaves the whole storage (owner, authorizations, issuer names, records, index
  and counter) as it was, so that the history continues as if the call had not been made.
  The failure is one of the reasons that the function and its modifiers name, and such a
  call had written nothing when it stopped; the one other failure is the overflow panic of
  the counter in \<^verbatim>\<open>addAlumniRecord\<close>, which comes after the record and the index
  were written, and the revert undoes these writes.
\<close>

theorem failed_call_changes_nothing:
  assumes "exec e c s = Inl (err, s_failed)"
  shows "transact e c s = s \<and>
         run s ((e, c) # later) = run s later \<and>
         (case c of
            AuthorizeIssuer p_issuer p_name \<Rightarrow>
              s_failed = s \<and>
              err \<in> {Revert ''Only owner can call this function'',
                     Revert ''Invalid issuer address'', Revert ''Issuer already authorized''}
          | RevokeIssuer p_issuer \<Rightarrow>
              s_failed = s \<and>
              err \<in> {Revert ''Only owner can call this function'',
                     Revert ''Issuer not authorized'', Revert ''Cannot revoke owner''}
          | TransferOwnership p_newOwner \<Rightarrow>
              s_failed = s \<and>
              err \<in> {Revert ''Only owner can call this function'',
                     Revert ''Invalid new owner address'', Revert ''Already the owner''}
          | AddAlumniRecord p_certId p_dataHash \<Rightarrow>
              s_failed = s \<and>
              err \<in> {Revert ''Not an authorized issuer'', Revert ''Certificate ID already exists'',
                     Revert ''Certificate ID cannot be empty'', Revert ''Data hash cannot be empty''} \<or>
              err = Panic 0x11 \<and> getTotalRecords s = - 1 \<and>
              s_failed = s\<lparr>records := (records s)(p_certId :=
                   \<lparr>certId = p_certId, dataHash = p_dataHash, issuer = msg_sender e,
                    timestamp = block_timestamp e, blockNumber = block_number e,
                    exists = True, issuerName = getIssuerName s (msg_sender e)\<rparr>),
                 certificateIds := getAllCertificateIds s @ [p_certId]\<rparr>
          | VerifyRecord p_certId p_dataHash \<Rightarrow>
              s_failed = s \<and> err = Revert ''Certificate ID does not exist'')"
proof -
  have same: "transact e c s = s"
    using assms by (rule transact_Inl)
  then have dropped: "run s ((e, c) # later) = run s later"
    by simp
  have kind: "case c of
            AuthorizeIssuer p_issuer p_name \<Rightarrow>
              s_failed = s \<and>
              err \<in> {Revert ''Only owner can call this function'',
                     Revert ''Invalid issuer address'', Revert ''Issuer already authorized''}
          | RevokeIssuer p_issuer \<Rightarrow>
              s_failed = s \<and>
              err \<in> {Revert ''Only owner can call this function'',
                     Revert ''Issuer not authorized'', Revert ''Cannot revoke owner''}
          | TransferOwnership p_newOwner \<Rightarrow>
              s_failed = s \<and>
              err \<in> {Revert ''Only owner can call this function'',
                     Revert ''Invalid new owner address'', Revert ''Already the owner''}
          | AddAlumniRecord p_certId p_dataHash \<Rightarrow>
              s_failed = s \<and>
              err \<in> {Revert ''Not an authorized issuer'', Revert ''Certificate ID already exists'',
                     Revert ''Certificate ID cannot be empty'', Revert ''Data hash cannot be empty''} \<or>
              err = Panic 0x11 \<and> getTotalRecords s = - 1 \<and>
              s_failed = s\<lparr>records := (records s)(p_certId :=
                   \<lparr>certId = p_certId, dataHash = p_dataHash, issuer = msg_sender e,
                    timestamp = block_timestamp e, blockNumber = block_number e,
                    exists = True, issuerName = getIssuerName s (msg_sender e)\<rparr>),
                 certificateIds := getAllCertificateIds s @ [p_certId]\<rparr>
          | VerifyRecord p_certId p_dataHash \<Rightarrow>
              s_failed = s \<and> err = Revert ''Certificate ID does not exist''"
  proof (cases c)
    case (AuthorizeIssuer i n)
    with assms show ?thesis
      by (simp add: drop_value_def authorizeIssuer_def onlyOwner_def require_def split: if_splits)
  next
    case (RevokeIssuer i)
    with assms show ?thesis
      by (simp add: drop_value_def revokeIssuer_def onlyOwner_def require_def split: if_splits)
  next
    case (TransferOwnership n)
    with assms show ?thesis
      by (simp add: drop_value_def transferOwnership_def onlyOwner_def require_def Let_def
          split: if_splits)
  next
    case (AddAlumniRecord k h)
    with assms show ?thesis
      by (simp add: drop_value_def addAlumniRecord_def onlyAuthorizedIssuer_def
          certIdNotExists_def require_def checked_inc_def Let_def getTotalRecords_def
          getIssuerName_def getAllCertificateIds_def split: if_splits)
  next
    case (VerifyRecord k h)
    with assms show ?thesis
      by (simp add: drop_value_def verifyRecord_def certIdExists_def require_def Let_def
          split: if_splits)
  qed
  from same dropped kind show ?thesis
    by blast
qed

theorem failed_call_changes_nothing_witness:
  "exec as_unauthorized (AddAlumniRecord ''CERT-001'' 5) deployed =
     Inl (Revert ''Not an authorized issuer'', deployed) \<and>
   transact as_unauthorized (AddAlumniRecord ''CERT-001'' 5) deployed = deployed \<and>
   run deployed [(as_unauthorized, AddAlumniRecord ''CERT-001'' 5),
                 (as_owner, AuthorizeIssuer 2 ''College of Engineering'')] = with_issuer1"
proof -
  have fails: "exec as_unauthorized (AddAlumniRecord ''CERT-001'' 5) deployed =
      Inl (Revert ''Not an authorized issuer'', deployed)"
    by (simp add: sample_defs call_defs)
  from failed_call_changes_nothing [OF fails,
      of "[(as_owner, AuthorizeIssuer 2 ''College of Engineering'')]"] fails
  show ?thesis
    unfolding with_issuer1_def by blast
qed

section \<open>The order of the checks of addAlumniRecord\<close>

text \<open>
  Claim C10. \<^verbatim>\<open>addAlumniRecord\<close> checks, in this order: that the caller is an
  authorized issuer, that the certificate ID has no record, that the certificate ID is not
  empty, that the data hash is not zero. Hence an authorized caller who passes a
  certificate ID that already has a record and the zero data hash gets "Certificate ID
  already exists", not "Data hash cannot be empty".
\<close>

theorem addAlumniRecord_check_order:
  "addAlumniRecord e p_certId p_dataHash s =
     (if \<not> isAuthorizedIssuer s (msg_sender e) then Inl (Revert ''Not an authorized issuer'', s)
      else if recordExists s p_certId then Inl (Revert ''Certificate ID already exists'', s)
      else if p_certId = [] then Inl (Revert ''Certificate ID cannot be empty'', s)
      else if p_dataHash = 0 then Inl (Revert ''Data hash cannot be empty'', s)
      else if getTotalRecords s = - 1
      then Inl (Panic 0x11,
             s\<lparr>records := (records s)(p_certId :=
                  \<lparr>certId = p_certId, dataHash = p_dataHash, issuer = msg_sender e,
                   timestamp = block_timestamp e, blockNumber = block_number e,
                   exists = True, issuerName = getIssuerName s (msg_sender e)\<rparr>),
                certificateIds := getAllCertificateIds s @ [p_certId]\<rparr>)
      else Inr ((True, block_timestamp e, block_number e),
                [AlumniRecordAdded p_certId p_dataHash (msg_sender e)
                   (getIssuerName s (msg_sender e)) (block_timestamp e) (block_number e)],
                s\<lparr>records := (records s)(p_certId :=
                     \<lparr>certId = p_certId, dataHash = p_dataHash, issuer = msg_sender e,
                      timestamp = block_timestamp e, blockNumber = block_number e,
                      exists = True, issuerName = getIssuerName s (msg_sender e)\<rparr>),
                   certificateIds := getAllCertificateIds s @ [p_certId],
                   totalRecords := getTotalRecords s + 1\<rparr>)) \<and>
   (isAuthorizedIssuer s (msg_sender e) \<and> recordExists s p_certId \<longrightarrow>
      addAlumniRecord e p_certId 0 s = Inl (Revert ''Certificate ID already exists'', s))"
  by (simp add: call_defs Let_def)

theorem addAlumniRecord_check_order_witness:
  "isAuthorizedIssuer with_record (msg_sender as_owner) \<and>
   recordExists with_record ''CERT-001'' \<and>
   addAlumniRecord as_owner ''CERT-001'' 0 with_record =
     Inl (Revert ''Certificate ID already exists'', with_record)"
proof -
  have auth: "isAuthorizedIssuer with_record (msg_sender as_owner)"
    and present: "recordExists with_record ''CERT-001''"
    by (simp_all add: with_record_eq with_issuer1_eq as_owner_def isAuthorizedIssuer_def
        recordExists_def)
  from addAlumniRecord_check_order
      [where e = as_owner and s = with_record and p_certId = "''CERT-001''" and p_dataHash = 0]
    auth present
  show ?thesis
    by blast
qed

section \<open>The data hash\<close>

text \<open>
  Claim C4. \<^verbatim>\<open>generateDataHash\<close> is a function of its six string arguments alone: it
  is \<^verbatim>\<open>keccak256\<close> of their bytes joined in the order name, roll number, degree,
  branch, graduation year, certificate ID, with nothing between them. So moving bytes
  across the boundary of two neighbouring fields does not change the hash:
  \<open>(''AB'', ''C'', \<dots>)\<close> and \<open>(''A'', ''BC'', \<dots>)\<close> are different inputs with the
  same hash. The order matters: exchanging the fields \<open>''A''\<close> and \<open>''B''\<close> changes
  the bytes that are hashed, so the two hashes are equal only if \<^verbatim>\<open>keccak256\<close>
  collides on two different byte strings.
\<close>

theorem generateDataHash_undelimited:
  "generateDataHash k p_name p_rollNumber p_degree p_branch p_graduationYear p_certId
     = k (p_name @ p_rollNumber @ p_degree @ p_branch @ p_graduationYear @ p_certId) \<and>
   generateDataHash k (x @ y) z p_degree p_branch p_graduationYear p_certId
     = generateDataHash k x (y @ z) p_degree p_branch p_graduationYear p_certId \<and>
   generateDataHash k ''AB'' ''C'' p_degree p_branch p_graduationYear p_certId
     = generateDataHash k ''A'' ''BC'' p_degree p_branch p_graduationYear p_certId \<and>
   (''AB'', ''C'', p_degree, p_branch, p_graduationYear, p_certId)
     \<noteq> (''A'', ''BC'', p_degree, p_branch, p_graduationYear, p_certId) \<and>
   abi_encodePacked [''A'', ''B'', p_degree, p_branch, p_graduationYear, p_certId]
     \<noteq> abi_encodePacked [''B'', ''A'', p_degree, p_branch, p_graduationYear, p_certId] \<and>
   (generateDataHash k ''A'' ''B'' p_degree p_branch p_graduationYear p_certId
      = generateDataHash k ''B'' ''A'' p_degree p_branch p_graduationYear p_certId)
     = (k (abi_encodePacked [''A'', ''B'', p_degree, p_branch, p_graduationYear, p_certId])
        = k (abi_encodePacked [''B'', ''A'', p_degree, p_branch, p_graduationYear, p_certId]))"
  by (simp add: generateDataHash_def abi_encodePacked_def)

section \<open>Verifying against a hash of the plain fields\<close>

text \<open>
  Fields are compared through their packed bytes. The name \<open>''AB''\<close> with the roll
  number \<open>''C''\<close> and the name \<open>''A''\<close> with the roll number \<open>''BC''\<close> have the
  same packed bytes, so a record created from the first verifies as valid against the
  second, whatever the hash function \<^verbatim>\<open>keccak256\<close> is. (The first branch of the case
  is a hash function whose value on these bytes is the zero sentinel: then the record
  cannot be created at all.)
\<close>

lemma boundary_shift_verifies:
  "\<forall>keccak256.
     abi_encodePacked [''AB'', ''C'', ''BSc'', ''CS'', ''2024'', ''CERT-1'']
       = abi_encodePacked [''A'', ''BC'', ''BSc'', ''CS'', ''2024'', ''CERT-1''] \<and>
     (case addAlumniRecord as_owner ''CERT-1''
             (generateDataHash keccak256 ''AB'' ''C'' ''BSc'' ''CS'' ''2024'' ''CERT-1'') deployed of
        Inl f \<Rightarrow>
          generateDataHash keccak256 ''AB'' ''C'' ''BSc'' ''CS'' ''2024'' ''CERT-1'' = 0
      | Inr (ret, evs, s1) \<Rightarrow>
          verifyRecord ''CERT-1''
            (generateDataHash keccak256 ''A'' ''BC'' ''BSc'' ''CS'' ''2024'' ''CERT-1'') s1
          = Inr ((True, 1, ''Test University'', 1700000000, 100),
                 [RecordVerified ''CERT-1'' True], s1))"
  by (simp add: sample_defs call_defs generateDataHash_def abi_encodePacked_def Let_def)

text \<open>A change of exactly one field changes the packed bytes.\<close>

lemma single_field_changes_encoding:
  "x \<noteq> x' \<Longrightarrow> abi_encodePacked (pre @ [x] @ post) \<noteq> abi_encodePacked (pre @ [x'] @ post)"
  by (simp add: abi_encodePacked_def)

text \<open>
  Claim C3. The canonicalization of the six fields is \<^verbatim>\<open>abi.encodePacked\<close>: their
  bytes in the order of the arguments. For a record created with
  \<open>generateDataHash(fields)\<close>, and after any further calls, \<^verbatim>\<open>verifyRecord\<close> with
  \<open>generateDataHash(fields')\<close> succeeds and returns the record's issuer, issuer name,
  timestamp and block number; \<open>isValid\<close> is true iff \<^verbatim>\<open>keccak256\<close> takes the
  same value on the packed bytes of the two field lists, hence true whenever the packed
  bytes are equal. With \<^verbatim>\<open>keccak256\<close> free of a collision on the two packed byte
  strings (the property a hash is used for; it is the one hypothesis about the primitive),
  \<open>isValid\<close> is true iff the fields are equal under the canonicalization, and false
  whenever a single field differs.
\<close>

theorem verify_after_create:
  assumes created:
      "addAlumniRecord e p_certId (generateDataHash k n r d b y c) s = Inr (ret, evs, s1)"
    and later: "s2 = run s1 txs"
  shows "\<exists>isValid.
           verifyRecord p_certId (generateDataHash k n' r' d' b' y' c') s2 =
             Inr ((isValid, msg_sender e, getIssuerName s (msg_sender e),
                   block_timestamp e, block_number e),
                  [RecordVerified p_certId isValid], s2) \<and>
           (isValid \<longleftrightarrow> k (abi_encodePacked [n, r, d, b, y, c])
                         = k (abi_encodePacked [n', r', d', b', y', c'])) \<and>
           (abi_encodePacked [n', r', d', b', y', c'] = abi_encodePacked [n, r, d, b, y, c]
              \<longrightarrow> isValid) \<and>
           (inj_on k {abi_encodePacked [n', r', d', b', y', c'], abi_encodePacked [n, r, d, b, y, c]}
              \<longrightarrow> (isValid \<longleftrightarrow> abi_encodePacked [n', r', d', b', y', c']
                                = abi_encodePacked [n, r, d, b, y, c])) \<and>
           (inj_on k {abi_encodePacked [n', r', d', b', y', c'], abi_encodePacked [n, r, d, b, y, c]} \<and>
            (\<exists>pre x x' post. [n, r, d, b, y, c] = pre @ [x] @ post \<and>
               [n', r', d', b', y', c'] = pre @ [x'] @ post \<and> x \<noteq> x')
              \<longrightarrow> \<not> isValid)"
proof -
  let ?enc = "abi_encodePacked [n, r, d, b, y, c]"
  let ?enc' = "abi_encodePacked [n', r', d', b', y', c']"
  let ?v = "k ?enc = k ?enc'"
  let ?rec = "\<lparr>certId = p_certId, dataHash = k ?enc, issuer = msg_sender e,
      timestamp = block_timestamp e, blockNumber = block_number e, exists = True,
      issuerName = issuerNames s (msg_sender e)\<rparr>"
  from created have "records s1 p_certId = ?rec"
    by (simp add: addAlumniRecord_Inr generateDataHash_def)
  then have rec2: "records s2 p_certId = ?rec"
    unfolding later by (simp add: records_run)
  then have result: "verifyRecord p_certId (generateDataHash k n' r' d' b' y' c') s2 =
      Inr ((?v, msg_sender e, getIssuerName s (msg_sender e), block_timestamp e, block_number e),
           [RecordVerified p_certId ?v], s2)"
    by (simp add: verifyRecord_def certIdExists_def require_def Let_def generateDataHash_def
        getIssuerName_def)
  have equal: "?enc' = ?enc \<longrightarrow> ?v"
    by (rule impI) (erule ssubst, rule refl)
  have inj: "inj_on k {?enc', ?enc} \<longrightarrow> (?v \<longleftrightarrow> ?enc' = ?enc)"
  proof (rule impI, rule iffI)
    assume i: "inj_on k {?enc', ?enc}" and v: "?v"
    have "?enc \<in> {?enc', ?enc}" and "?enc' \<in> {?enc', ?enc}"
      by (rule insertI2, rule insertI1) (rule insertI1)
    with i v have "?enc = ?enc'"
      by (rule inj_onD)
    then show "?enc' = ?enc"
      by (rule sym)
  next
    assume eq: "?enc' = ?enc"
    show "?v"
      unfolding eq by (rule refl)
  qed
  have single: "inj_on k {?enc', ?enc} \<and>
      (\<exists>pre x x' post. [n, r, d, b, y, c] = pre @ [x] @ post \<and>
         [n', r', d', b', y', c'] = pre @ [x'] @ post \<and> x \<noteq> x') \<longrightarrow> \<not> ?v"
  proof
    assume h: "inj_on k {?enc', ?enc} \<and>
      (\<exists>pre x x' post. [n, r, d, b, y, c] = pre @ [x] @ post \<and>
         [n', r', d', b', y', c'] = pre @ [x'] @ post \<and> x \<noteq> x')"
    then obtain pre x x' post where
      old: "[n, r, d, b, y, c] = pre @ [x] @ post" and
      new: "[n', r', d', b', y', c'] = pre @ [x'] @ post" and
      diff: "x' \<noteq> x"
      by blast
    from diff have ne: "abi_encodePacked (pre @ [x'] @ post) \<noteq> abi_encodePacked (pre @ [x] @ post)"
      by (rule single_field_changes_encoding)
    have "?enc' \<noteq> ?enc"
      unfolding old new by (rule ne)
    with h inj show "\<not> ?v"
      by blast
  qed
  show ?thesis
  proof (intro exI [of _ ?v] conjI)
    show "verifyRecord p_certId (generateDataHash k n' r' d' b' y' c') s2 =
      Inr ((?v, msg_sender e, getIssuerName s (msg_sender e), block_timestamp e, block_number e),
           [RecordVerified p_certId ?v], s2)"
      by (rule result)
    show "?v \<longleftrightarrow> ?v"
      by (rule refl)
    show "?enc' = ?enc \<longrightarrow> ?v"
      by (rule equal)
    show "inj_on k {?enc', ?enc} \<longrightarrow> (?v \<longleftrightarrow> ?enc' = ?enc)"
      by (rule inj)
    show "inj_on k {?enc', ?enc} \<and>
      (\<exists>pre x x' post. [n, r, d, b, y, c] = pre @ [x] @ post \<and>
         [n', r', d', b', y', c'] = pre @ [x'] @ post \<and> x \<noteq> x') \<longrightarrow> \<not> ?v"
      by (rule single)
  qed
qed

theorem verify_after_create_witness:
  "verifyRecord ''CERT-1''
     (generateDataHash (\<lambda>bs. word_of_nat (Suc (length bs)))
        ''Janet'' ''R1'' ''BSc'' ''CS'' ''2024'' ''CERT-1'')
     (transact as_owner
        (AddAlumniRecord ''CERT-1''
           (generateDataHash (\<lambda>bs. word_of_nat (Suc (length bs)))
              ''Jane'' ''R1'' ''BSc'' ''CS'' ''2024'' ''CERT-1''))
        deployed)
   = Inr ((False, 1, ''Test University'', 1700000000, 100), [RecordVerified ''CERT-1'' False],
        transact as_owner
          (AddAlumniRecord ''CERT-1''
             (generateDataHash (\<lambda>bs. word_of_nat (Suc (length bs)))
                ''Jane'' ''R1'' ''BSc'' ''CS'' ''2024'' ''CERT-1''))
          deployed)"
proof -
  let ?k = "\<lambda>bs :: string. word_of_nat (Suc (length bs)) :: bytes32"
  let ?h = "generateDataHash ?k ''Jane'' ''R1'' ''BSc'' ''CS'' ''2024'' ''CERT-1''"
  let ?s1 = "transact as_owner (AddAlumniRecord ''CERT-1'' ?h) deployed"
  have created: "addAlumniRecord as_owner ''CERT-1'' ?h deployed =
      Inr ((True, 1700000000, 100),
           [AlumniRecordAdded ''CERT-1'' ?h 1 ''Test University'' 1700000000 100], ?s1)"
    by (simp add: sample_defs call_defs generateDataHash_def abi_encodePacked_def)
  have later: "?s1 = run ?s1 []"
    by simp
  have name: "getIssuerName deployed 1 = ''Test University''"
    and env: "msg_sender as_owner = 1" "block_timestamp as_owner = 1700000000"
      "block_number as_owner = 100"
    by (simp_all add: sample_defs call_defs)
  have inj: "inj_on ?k {abi_encodePacked [''Janet'', ''R1'', ''BSc'', ''CS'', ''2024'', ''CERT-1''],
      abi_encodePacked [''Jane'', ''R1'', ''BSc'', ''CS'', ''2024'', ''CERT-1'']}"
    by (simp add: abi_encodePacked_def)
  have one: "\<exists>pre x x' post.
      [''Jane'', ''R1'', ''BSc'', ''CS'', ''2024'', ''CERT-1''] = pre @ [x] @ post \<and>
      [''Janet'', ''R1'', ''BSc'', ''CS'', ''2024'', ''CERT-1''] = pre @ [x'] @ post \<and> x \<noteq> x'"
    by (rule exI [of _ "[]"], rule exI [of _ "''Jane''"], rule exI [of _ "''Janet''"],
        rule exI [of _ "[''R1'', ''BSc'', ''CS'', ''2024'', ''CERT-1'']"]) simp
  from verify_after_create [OF created later,
      of "''Janet''" "''R1''" "''BSc''" "''CS''" "''2024''" "''CERT-1''"]
  obtain isValid where
    result: "verifyRecord ''CERT-1''
        (generateDataHash ?k ''Janet'' ''R1'' ''BSc'' ''CS'' ''2024'' ''CERT-1'') ?s1 =
      Inr ((isValid, msg_sender as_owner, getIssuerName deployed (msg_sender as_owner),
            block_timestamp as_owner, block_number as_owner),
           [RecordVerified ''CERT-1'' isValid], ?s1)"
    and single: "inj_on ?k {abi_encodePacked [''Janet'', ''R1'', ''BSc'', ''CS'', ''2024'', ''CERT-1''],
          abi_encodePacked [''Jane'', ''R1'', ''BSc'', ''CS'', ''2024'', ''CERT-1'']} \<and>
        (\<exists>pre x x' post.
           [''Jane'', ''R1'', ''BSc'', ''CS'', ''2024'', ''CERT-1''] = pre @ [x] @ post \<and>
           [''Janet'', ''R1'', ''BSc'', ''CS'', ''2024'', ''CERT-1''] = pre @ [x'] @ post \<and> x \<noteq> x')
        \<longrightarrow> \<not> isValid"
    by blast
  from single inj one have "\<not> isValid"
    by blast
  with result show ?thesis
    unfolding env name by simp
qed

end
